theory Spec2Isabelle
  imports Complex_Main "HOL-Library.Multiset" "HOL-Library.Sublist"
begin

section \<open>Facility ranking of TriageMapRouter.jsx\<close>

text \<open>
  A shallow embedding of the scoring, ranking and filtering logic of
  \<^verbatim>\<open>src/components/TriageMapRouter.jsx\<close>. JavaScript numbers are modelled by the reals:
  rounding, \<^verbatim>\<open>NaN\<close> and the infinities of IEEE doubles are outside the model. The
  external places, details and directions services are parameters: what their callbacks
  receive is an argument of the function that models the callback. Map rendering
  (markers, bounds, info windows) is not modelled.
\<close>

subsection \<open>Data model\<close>

text \<open>A coordinate: the \<^verbatim>\<open>{lat, lng}\<close> literal of the user location and the
  \<^verbatim>\<open>lat()\<close>/\<^verbatim>\<open>lng()\<close> of a place's \<^verbatim>\<open>geometry.location\<close>.\<close>

record LatLng =
  lat :: real
  lng :: real

record Geometry =
  location :: "LatLng option"

text \<open>The values the \<^verbatim>\<open>isOpen\<close> property of a place takes: the code compares it
  with \<^verbatim>\<open>true\<close>, \<^verbatim>\<open>false\<close> and \<^verbatim>\<open>null\<close> by strict (in)equality, so
  \<^verbatim>\<open>undefined\<close> is kept apart from \<^verbatim>\<open>null\<close>.\<close>

datatype open_status = IsTrue | IsFalse | IsNull | IsUndefined

text \<open>A candidate as the places search returns it. An absent (\<^verbatim>\<open>undefined\<close> or
  \<^verbatim>\<open>null\<close>) property is \<open>None\<close>.\<close>

record PlaceResult =
  place_id :: string
  name :: string
  geometry :: "Geometry option"
  rating :: "real option"
  user_ratings_total :: "real option"
  vicinity :: "string option"
  formatted_phone_number :: "string option"
  business_status :: "string option"

text \<open>The object \<^verbatim>\<open>{ ...place, distance, score, isOpen }\<close>.\<close>

record ScoredPlace = PlaceResult +
  distance :: real
  score :: real
  isOpen :: open_status

record TriageResult =
  urgency :: "string option"
  department :: "string option"
  specialist :: "string option"
  search_keywords :: "string list option"

text \<open>\<^verbatim>\<open>triageResult?.urgency\<close>: the component's \<^verbatim>\<open>triageResult\<close> prop may be absent.\<close>

definition urgencyOf :: "TriageResult option \<Rightarrow> string option" where
  "urgencyOf triageResult = (case triageResult of None \<Rightarrow> None | Some t \<Rightarrow> urgency t)"

subsection \<open>Search policy\<close>

definition getSearchRadius :: "TriageResult option \<Rightarrow> nat" where
  "getSearchRadius triageResult =
     (if urgencyOf triageResult = Some ''emergency'' then 20000
      else if urgencyOf triageResult = Some ''urgent'' then 15000
      else 10000)"

text \<open>\<^verbatim>\<open>.filter(Boolean)\<close> on an array of strings and absent values keeps the non-empty
  strings; \<^verbatim>\<open>.join(' ')\<close> puts one space between consecutive elements.\<close>

definition filterBoolean :: "string option list \<Rightarrow> string list" where
  "filterBoolean xs = List.map_filter (\<lambda>x. case x of None \<Rightarrow> None
                                            | Some s \<Rightarrow> if s = [] then None else Some s) xs"

fun join_space :: "string list \<Rightarrow> string" where
  "join_space [] = []"
| "join_space [x] = x"
| "join_space (x # y # ys) = x @ '' '' @ join_space (y # ys)"

text \<open>Lines 156-157: \<^verbatim>\<open>keywords = triageResult.search_keywords || []\<close> and
  \<^verbatim>\<open>query = [...keywords, triageResult.department, 'hospital'].filter(Boolean).join(' ')\<close>.\<close>

definition query :: "TriageResult \<Rightarrow> string" where
  "query t =
     (let keywords = (case search_keywords t of None \<Rightarrow> [] | Some ks \<Rightarrow> ks)
      in join_space (filterBoolean (map Some keywords @ [department t, Some ''hospital''])))"

text \<open>Line 162: \<^verbatim>\<open>query: query || 'hospital near me'\<close>. The flag tells which operand
  of \<^verbatim>\<open>||\<close> was taken.\<close>

definition requestQuery :: "TriageResult \<Rightarrow> string \<times> bool" where
  "requestQuery t = (if query t \<noteq> [] then (query t, False) else (''hospital near me'', True))"

text \<open>The request of lines 159-163, for the user location and a triage result; the
  nearby search of lines 170-173 reuses the location and the radius.\<close>

record TextSearchRequest =
  req_location :: LatLng
  req_radius :: nat
  req_query :: string

definition textSearchRequest :: "LatLng \<Rightarrow> TriageResult \<Rightarrow> TextSearchRequest" where
  "textSearchRequest loc t =
     \<lparr>req_location = loc, req_radius = getSearchRadius (Some t),
      req_query = fst (requestQuery t)\<rparr>"

subsection \<open>Distance and score\<close>

text \<open>\<^verbatim>\<open>Math.atan2(y, x)\<close> on the reals.\<close>

definition atan2 :: "real \<Rightarrow> real \<Rightarrow> real" where
  "atan2 y x =
     (if 0 < x then arctan (y / x)
      else if x < 0 \<and> 0 \<le> y then arctan (y / x) + pi
      else if x < 0 \<and> y < 0 then arctan (y / x) - pi
      else if 0 < y then pi / 2
      else if y < 0 then - (pi / 2)
      else 0)"

text \<open>The haversine term \<^verbatim>\<open>a\<close> of \<^verbatim>\<open>calculateDistance\<close> (lines 40-44).\<close>

definition haversine_a :: "real \<Rightarrow> real \<Rightarrow> real \<Rightarrow> real \<Rightarrow> real" where
  "haversine_a lat1 lng1 lat2 lng2 =
     (let dLat = (lat2 - lat1) * pi / 180;
          dLng = (lng2 - lng1) * pi / 180
      in sin (dLat / 2) * sin (dLat / 2) +
         cos (lat1 * pi / 180) * cos (lat2 * pi / 180) *
         sin (dLng / 2) * sin (dLng / 2))"

text \<open>\<^verbatim>\<open>calculateDistance\<close> in exact arithmetic. The doubles of the program round every
  operation: for nearly antipodal points the rounded \<^verbatim>\<open>a\<close> can exceed 1 (for the points
  (8, -180) and (-8, 0) it is 1.0000000000000002), \<^verbatim>\<open>Math.sqrt(1 - a)\<close> is then
  \<^verbatim>\<open>NaN\<close> and so is the result. The exact \<^verbatim>\<open>a\<close> never exceeds 1, so that path does not
  exist here: this definition stands for the program only where no rounding, \<^verbatim>\<open>NaN\<close>
  or infinity decides the result, as for two equal points.\<close>

definition calculateDistance :: "real \<Rightarrow> real \<Rightarrow> real \<Rightarrow> real \<Rightarrow> real" where
  "calculateDistance lat1 lng1 lat2 lng2 =
     (let R = 6371;
          a = haversine_a lat1 lng1 lat2 lng2;
          c = 2 * atan2 (sqrt a) (sqrt (1 - a))
      in R * c)"

text \<open>\<^verbatim>\<open>v || d\<close> for an optional number \<^verbatim>\<open>v\<close>: an absent value and \<^verbatim>\<open>0\<close> are
  both falsy.\<close>

definition or_default :: "real option \<Rightarrow> real \<Rightarrow> real" where
  "or_default v d = (case v of None \<Rightarrow> d | Some x \<Rightarrow> if x = 0 then d else x)"

definition calculateScore :: "'a PlaceResult_scheme \<Rightarrow> real \<Rightarrow> real" where
  "calculateScore place distanceKm =
     (let distanceScore = 5 / max distanceKm 0.1;
          ratingScore = or_default (rating place) 3;
          popularityBonus = (if or_default (user_ratings_total place) 0 > 50 then 1 else 0)
      in distanceScore + ratingScore + popularityBonus)"

subsection \<open>Sorting with a comparator\<close>

text \<open>
  \<^verbatim>\<open>Array.prototype.sort(comparefn)\<close>: a negative result puts the first argument
  first, a positive one the second, and \<^verbatim>\<open>0\<close> keeps the input order (the sort is
  stable). ECMAScript fixes the result for a consistent comparator only, where every
  stable sort returns the same list; the model is the stable insertion sort. For an
  inconsistent comparator the order is implementation-defined and an engine need not
  return the list of this model (on lists of four or more elements the two can differ);
  the properties proved below for every urgency use only that the result is a
  permutation of the input, and the evaluations on concrete lists use either a
  consistent comparator or a list of three elements whose neighbours compare as equal,
  which a sort that detects the ascending run leaves in place as this model does.
\<close>

fun insert_by :: "('a \<Rightarrow> 'a \<Rightarrow> real) \<Rightarrow> 'a \<Rightarrow> 'a list \<Rightarrow> 'a list" where
  "insert_by cmp x [] = [x]"
| "insert_by cmp x (y # ys) = (if cmp x y \<le> 0 then x # y # ys else y # insert_by cmp x ys)"

fun sort_by :: "('a \<Rightarrow> 'a \<Rightarrow> real) \<Rightarrow> 'a list \<Rightarrow> 'a list" where
  "sort_by cmp [] = []"
| "sort_by cmp (x # xs) = insert_by cmp x (sort_by cmp xs)"

subsection \<open>Phase 1: score, sort, truncate (lines 193-203)\<close>

text \<open>One element of \<^verbatim>\<open>results.filter(p => p.geometry?.location).map(...)\<close>: \<open>None\<close>
  for a place the filter drops, the scored object otherwise.\<close>

definition scorePlace :: "LatLng \<Rightarrow> PlaceResult \<Rightarrow> ScoredPlace option" where
  "scorePlace userLocation place =
     (case geometry place of
        None \<Rightarrow> None
      | Some g \<Rightarrow>
          (case location g of
             None \<Rightarrow> None
           | Some l \<Rightarrow>
               (let d = calculateDistance (lat userLocation) (lng userLocation) (lat l) (lng l);
                    s = calculateScore place d
                in Some \<lparr>place_id = place_id place, name = name place,
                         geometry = geometry place, rating = rating place,
                         user_ratings_total = user_ratings_total place,
                         vicinity = vicinity place,
                         formatted_phone_number = formatted_phone_number place,
                         business_status = business_status place,
                         distance = d, score = s, isOpen = IsNull\<rparr>)))"

definition compareScore :: "ScoredPlace \<Rightarrow> ScoredPlace \<Rightarrow> real" where
  "compareScore a b = score b - score a"

definition preFilterCap :: "TriageResult option \<Rightarrow> nat" where
  "preFilterCap triageResult = (if urgencyOf triageResult = Some ''emergency'' then 6 else 8)"

definition initialScored ::
  "TriageResult option \<Rightarrow> LatLng \<Rightarrow> PlaceResult list \<Rightarrow> ScoredPlace list" where
  "initialScored triageResult userLocation results =
     take (preFilterCap triageResult)
       (sort_by compareScore (List.map_filter (scorePlace userLocation) results))"

subsection \<open>Per-candidate detail lookup (lines 206-235)\<close>

datatype js_error = TypeError | OtherError

text \<open>What calling \<^verbatim>\<open>details.opening_hours.isOpen()\<close> does: return a value or throw.\<close>

datatype isOpen_call = Returns open_status | Throws js_error

text \<open>\<open>isOpen_fn\<close> is \<open>None\<close> when \<^verbatim>\<open>typeof opening_hours.isOpen\<close> is not
  \<^verbatim>\<open>'function'\<close>.\<close>

record OpeningHours =
  isOpen_fn :: "isOpen_call option"

record PlaceDetails =
  opening_hours :: "OpeningHours option"
  d_formatted_phone_number :: "string option"
  d_business_status :: "string option"

text \<open>The arguments \<^verbatim>\<open>(details, status)\<close> of the \<^verbatim>\<open>getDetails\<close> callback. The status
  constants of the places service are strings; \<^verbatim>\<open>PlacesServiceStatus.OK\<close> is
  \<^verbatim>\<open>'OK'\<close>.\<close>

record DetailsResponse =
  dr_details :: "PlaceDetails option"
  dr_status :: string

definition PlacesServiceStatus_OK :: string where
  "PlacesServiceStatus_OK = ''OK''"

text \<open>Lines 212-221: \<^verbatim>\<open>isOpen\<close> starts as \<^verbatim>\<open>null\<close>, is assigned the call's value
  when there is an \<^verbatim>\<open>isOpen\<close> method, and is reset to \<^verbatim>\<open>null\<close> when the call
  throws.\<close>

definition detailsIsOpen :: "PlaceDetails \<Rightarrow> open_status" where
  "detailsIsOpen d =
     (case opening_hours d of
        None \<Rightarrow> IsNull
      | Some h \<Rightarrow>
          (case isOpen_fn h of
             None \<Rightarrow> IsNull
           | Some (Returns v) \<Rightarrow> v
           | Some (Throws e) \<Rightarrow> IsNull))"

text \<open>\<^verbatim>\<open>s || null\<close> for an optional string.\<close>

definition or_null :: "string option \<Rightarrow> string option" where
  "or_null v = (case v of None \<Rightarrow> None | Some s \<Rightarrow> if s = [] then None else Some s)"

text \<open>The value the \<^verbatim>\<open>getDetails\<close> callback passes to \<^verbatim>\<open>resolve\<close>.\<close>

definition detailsCallback :: "ScoredPlace \<Rightarrow> DetailsResponse \<Rightarrow> ScoredPlace" where
  "detailsCallback place r =
     (case dr_details r of
        None \<Rightarrow> place\<lparr>isOpen := IsNull\<rparr>
      | Some d \<Rightarrow>
          if dr_status r = PlacesServiceStatus_OK
          then place\<lparr>formatted_phone_number := or_null (d_formatted_phone_number d),
                      business_status := d_business_status d,
                      isOpen := detailsIsOpen d\<rparr>
          else place\<lparr>isOpen := IsNull\<rparr>)"

text \<open>A settled promise. The details service is a function from the requested
  \<^verbatim>\<open>placeId\<close> to the arguments its callback receives: the callback is assumed to be
  called once for every request.\<close>

datatype 'a promise = Resolved 'a | Rejected js_error

definition detailsPromise ::
  "(string \<Rightarrow> DetailsResponse) \<Rightarrow> ScoredPlace \<Rightarrow> ScoredPlace promise" where
  "detailsPromise getDetails place = Resolved (detailsCallback place (getDetails (place_id place)))"

text \<open>\<^verbatim>\<open>Promise.all\<close>: the list of values, in the order of the promises, when all of
  them resolve; a rejection otherwise.\<close>

fun promise_all :: "'a promise list \<Rightarrow> 'a list promise" where
  "promise_all [] = Resolved []"
| "promise_all (Rejected e # ps) = Rejected e"
| "promise_all (Resolved x # ps) =
     (case promise_all ps of Resolved xs \<Rightarrow> Resolved (x # xs) | Rejected e \<Rightarrow> Rejected e)"

subsection \<open>Phase 2: re-sort, filter, truncate (lines 239-255)\<close>

definition compareFinal :: "TriageResult option \<Rightarrow> ScoredPlace \<Rightarrow> ScoredPlace \<Rightarrow> real" where
  "compareFinal triageResult a b =
     (if urgencyOf triageResult = Some ''emergency'' \<and> isOpen a = IsTrue \<and> isOpen b \<noteq> IsTrue
      then - 1
      else if urgencyOf triageResult = Some ''emergency'' \<and> isOpen b = IsTrue \<and> isOpen a \<noteq> IsTrue
      then 1
      else if isOpen a = IsTrue \<and> isOpen b = IsFalse then - 1
      else if isOpen a = IsFalse \<and> isOpen b = IsTrue then 1
      else score b - score a)"

definition keepPlace :: "TriageResult option \<Rightarrow> ScoredPlace \<Rightarrow> bool" where
  "keepPlace triageResult place =
     (if urgencyOf triageResult = Some ''emergency'' then isOpen place \<noteq> IsFalse else True)"

definition resultCap :: "TriageResult option \<Rightarrow> nat" where
  "resultCap triageResult = (if urgencyOf triageResult = Some ''emergency'' then 3 else 5)"

definition sortedPlaces :: "TriageResult option \<Rightarrow> ScoredPlace list \<Rightarrow> ScoredPlace list" where
  "sortedPlaces triageResult placesWithDetails =
     sort_by (compareFinal triageResult) placesWithDetails"

definition filteredPlaces :: "TriageResult option \<Rightarrow> ScoredPlace list \<Rightarrow> ScoredPlace list" where
  "filteredPlaces triageResult placesWithDetails =
     filter (keepPlace triageResult) (sortedPlaces triageResult placesWithDetails)"

definition finalPlaces :: "TriageResult option \<Rightarrow> ScoredPlace list \<Rightarrow> ScoredPlace list" where
  "finalPlaces triageResult placesWithDetails =
     take (resultCap triageResult) (filteredPlaces triageResult placesWithDetails)"

subsection \<open>Component state and the search callbacks (lines 165-292)\<close>

record Step =
  instructions :: string
  step_distance_text :: string

record Leg =
  leg_distance_text :: string
  leg_duration_text :: string
  steps :: "Step list"

record Route =
  legs :: "Leg list"

record DirectionsResult =
  routes :: "Route list"

record RouteStep =
  rs_instruction :: string
  rs_distance :: string

record RouteInfo =
  ri_distance :: string
  ri_duration :: string
  ri_steps :: "RouteStep list"

text \<open>\<^verbatim>\<open>directionsRendererRef.current\<close>: absent, or a renderer with the directions it
  was last given.\<close>

datatype renderer = NoRenderer | Renderer "DirectionsResult option"

text \<open>The \<^verbatim>\<open>useState\<close> cells and refs of the component that the modelled code reads or
  writes; \<open>mapInstance\<close> tells whether \<^verbatim>\<open>mapInstanceRef.current\<close> is set.\<close>

record UiState =
  userLocation :: "LatLng option"
  places :: "ScoredPlace list"
  loading :: bool
  error :: "string option"
  selectedPlace :: "ScoredPlace option"
  directions :: "DirectionsResult option"
  routeInfo :: "RouteInfo option"
  mapInstance :: bool
  directionsRenderer :: renderer

definition placesWithDetails ::
  "TriageResult option \<Rightarrow> LatLng \<Rightarrow> (string \<Rightarrow> DetailsResponse) \<Rightarrow> PlaceResult list
     \<Rightarrow> ScoredPlace list promise" where
  "placesWithDetails triageResult loc getDetails results =
     promise_all (map (detailsPromise getDetails) (initialScored triageResult loc results))"

text \<open>\<^verbatim>\<open>processResults\<close>: the \<^verbatim>\<open>then\<close> handler runs when \<^verbatim>\<open>Promise.all\<close> resolves;
  a rejection has no handler and leaves the state as it is.\<close>

definition processResults ::
  "TriageResult option \<Rightarrow> LatLng \<Rightarrow> (string \<Rightarrow> DetailsResponse) \<Rightarrow> PlaceResult list
     \<Rightarrow> UiState \<Rightarrow> UiState" where
  "processResults triageResult loc getDetails results st =
     (case placesWithDetails triageResult loc getDetails results of
        Resolved ps \<Rightarrow> st\<lparr>places := finalPlaces triageResult ps, loading := False\<rparr>
      | Rejected e \<Rightarrow> st)"

text \<open>The arguments \<^verbatim>\<open>(results, status)\<close> of a search callback.\<close>

record SearchResponse =
  sr_results :: "PlaceResult list option"
  sr_status :: string

text \<open>The test \<^verbatim>\<open>status === PlacesServiceStatus.OK && results\<close>: an empty array is
  truthy.\<close>

definition searchSucceeded :: "SearchResponse \<Rightarrow> bool" where
  "searchSucceeded r = (sr_status r = PlacesServiceStatus_OK \<and> sr_results r \<noteq> None)"

text \<open>The \<^verbatim>\<open>textSearch\<close> callback (lines 165-183) with the \<^verbatim>\<open>nearbySearch\<close> callback
  nested in it: \<open>nearby\<close> is what the fallback search answers when it is asked.\<close>

definition textSearchCallback ::
  "TriageResult option \<Rightarrow> LatLng \<Rightarrow> (string \<Rightarrow> DetailsResponse) \<Rightarrow> SearchResponse
     \<Rightarrow> SearchResponse \<Rightarrow> UiState \<Rightarrow> UiState" where
  "textSearchCallback triageResult loc getDetails text nearby st =
     (case (sr_results text, sr_status text = PlacesServiceStatus_OK) of
        (Some results, True) \<Rightarrow> processResults triageResult loc getDetails results st
      | _ \<Rightarrow>
          (case (sr_results nearby, sr_status nearby = PlacesServiceStatus_OK) of
             (Some nearbyResults, True) \<Rightarrow>
               processResults triageResult loc getDetails nearbyResults st
           | _ \<Rightarrow> st\<lparr>error := Some ''No hospitals found nearby'', loading := False\<rparr>))"

subsection \<open>Directions (lines 297-349)\<close>

text \<open>\<^verbatim>\<open>DirectionsStatus.OK\<close> is the string \<^verbatim>\<open>'OK'\<close>.\<close>

definition DirectionsStatus_OK :: string where
  "DirectionsStatus_OK = ''OK''"

text \<open>Lines 328-337: \<^verbatim>\<open>result.routes[0].legs[0]\<close> and the route info built from it;
  reading a property of \<^verbatim>\<open>undefined\<close> throws a \<^verbatim>\<open>TypeError\<close>.\<close>

definition extractRouteInfo :: "DirectionsResult option \<Rightarrow> js_error + RouteInfo" where
  "extractRouteInfo result =
     (case result of
        None \<Rightarrow> Inl TypeError
      | Some r \<Rightarrow>
          (case routes r of
             [] \<Rightarrow> Inl TypeError
           | route # _ \<Rightarrow>
               (case legs route of
                  [] \<Rightarrow> Inl TypeError
                | leg # _ \<Rightarrow>
                    Inr \<lparr>ri_distance = leg_distance_text leg,
                         ri_duration = leg_duration_text leg,
                         ri_steps = map (\<lambda>step. \<lparr>rs_instruction = instructions step,
                                                   rs_distance = step_distance_text step\<rparr>)
                                        (steps leg)\<rparr>)))"

text \<open>\<^verbatim>\<open>showDirections(place)\<close> together with the callback of
  \<^verbatim>\<open>directionsService.route\<close>, which receives \<^verbatim>\<open>(result, status)\<close>. The first component
  is the error thrown inside the callback, if any.\<close>

definition showDirections ::
  "ScoredPlace \<Rightarrow> DirectionsResult option \<Rightarrow> string \<Rightarrow> UiState \<Rightarrow> js_error option \<times> UiState" where
  "showDirections place result status st =
     (if \<not> mapInstance st \<or> userLocation st = None then (None, st)
      else
        (let st1 = (case directionsRenderer st of
                      NoRenderer \<Rightarrow> st\<lparr>directionsRenderer := Renderer None\<rparr>
                    | Renderer d \<Rightarrow> st)
         in if status = DirectionsStatus_OK
            then
              (let st2 = st1\<lparr>directionsRenderer := Renderer result,
                             directions := result,
                             selectedPlace := Some place\<rparr>
               in case extractRouteInfo result of
                    Inl e \<Rightarrow> (Some e, st2)
                  | Inr info \<Rightarrow> (None, st2\<lparr>routeInfo := Some info\<rparr>))
            else (None, st1)))"

definition clearDirections :: "UiState \<Rightarrow> UiState" where
  "clearDirections st =
     (case directionsRenderer st of
        NoRenderer \<Rightarrow> st\<lparr>directions := None, routeInfo := None\<rparr>
      | Renderer d \<Rightarrow>
          st\<lparr>directionsRenderer := Renderer (Some \<lparr>routes = []\<rparr>),
              directions := None, routeInfo := None\<rparr>)"

section \<open>Reference formulas and sample inputs\<close>

text \<open>The score as the specification words it: the rating whenever one is present, 3
  when it is absent; a bonus of 1 when more than 50 ratings are recorded.\<close>

definition score_as_claimed :: "'a PlaceResult_scheme \<Rightarrow> real \<Rightarrow> real" where
  "score_as_claimed place d =
     5 / max d 0.1
     + (case rating place of None \<Rightarrow> 3 | Some r \<Rightarrow> r)
     + (case user_ratings_total place of None \<Rightarrow> 0 | Some n \<Rightarrow> if n > 50 then 1 else 0)"

definition zeroRated :: PlaceResult where
  "zeroRated = \<lparr>place_id = ''p0'', name = ''Clinic'', geometry = None, rating = Some 0,
                 user_ratings_total = Some 10, vicinity = None,
                 formatted_phone_number = None, business_status = None\<rparr>"

text \<open>The haversine great-circle distance on a sphere of radius 6371 km, for
  coordinates in degrees.\<close>

definition radians :: "real \<Rightarrow> real" where
  "radians deg = deg * pi / 180"

definition haversine_reference :: "real \<Rightarrow> real \<Rightarrow> real \<Rightarrow> real \<Rightarrow> real" where
  "haversine_reference lat1 lng1 lat2 lng2 =
     (let a = (sin (radians (lat2 - lat1) / 2))\<^sup>2
              + cos (radians lat1) * cos (radians lat2) * (sin (radians (lng2 - lng1) / 2))\<^sup>2
      in 2 * 6371 * arcsin (sqrt a))"

text \<open>The cases of claim C6 in which a detail lookup gives no answer to "is it open
  now": a status other than \<^verbatim>\<open>OK\<close>, no details, details without opening hours, opening
  hours without an \<^verbatim>\<open>isOpen\<close> method, and an \<^verbatim>\<open>isOpen\<close> call that throws.\<close>

definition lookupUnusable :: "DetailsResponse \<Rightarrow> bool" where
  "lookupUnusable r =
     (dr_status r \<noteq> PlacesServiceStatus_OK
      \<or> (case dr_details r of
            None \<Rightarrow> True
          | Some d \<Rightarrow>
              (case opening_hours d of
                 None \<Rightarrow> True
               | Some h \<Rightarrow>
                   (case isOpen_fn h of
                      None \<Rightarrow> True
                    | Some (Throws e) \<Rightarrow> True
                    | Some (Returns v) \<Rightarrow> False))))"

text \<open>Sample inputs for the closed instances below.\<close>

definition samplePlace :: "string \<Rightarrow> real \<Rightarrow> open_status \<Rightarrow> ScoredPlace" where
  "samplePlace i s st =
     \<lparr>place_id = i, name = i, geometry = None, rating = None, user_ratings_total = None,
      vicinity = None, formatted_phone_number = None, business_status = None,
      distance = 1, score = s, isOpen = st\<rparr>"

definition triageWith :: "string \<Rightarrow> TriageResult option" where
  "triageWith u = Some \<lparr>urgency = Some u, department = None, specialist = None,
                         search_keywords = None\<rparr>"

definition cardiologyTriage :: TriageResult where
  "cardiologyTriage = \<lparr>urgency = Some ''urgent'', department = Some ''Cardiology'',
                        specialist = Some ''Cardiologist'', search_keywords = Some []\<rparr>"

text \<open>Five enriched candidates; the closed one has the highest score.\<close>

definition fiveCandidates :: "ScoredPlace list" where
  "fiveCandidates = [samplePlace ''C'' 9 IsFalse, samplePlace ''A'' 5 IsTrue,
                     samplePlace ''B'' 4 IsNull, samplePlace ''D'' 3 IsTrue,
                     samplePlace ''E'' 2 IsNull]"

text \<open>Three candidates of equal score: closed, of unknown status, and open.\<close>

definition closedP :: ScoredPlace where
  "closedP = samplePlace ''closed'' 1 IsFalse"

definition unknownP :: ScoredPlace where
  "unknownP = samplePlace ''unknown'' 1 IsNull"

definition openP :: ScoredPlace where
  "openP = samplePlace ''open'' 1 IsTrue"

text \<open>The fallback coordinate of the component (line 86).\<close>

definition delhi :: LatLng where
  "delhi = \<lparr>lat = 28.6139, lng = 77.2090\<rparr>"

text \<open>Three search results at the user location without ratings, such as three
  departments at one address, and a details service that reports the first as closed,
  fails for the second and reports the third as open.\<close>

definition unratedAt :: "string \<Rightarrow> PlaceResult" where
  "unratedAt i = \<lparr>place_id = i, name = i,
                   geometry = Some \<lparr>location = Some delhi\<rparr>,
                   rating = None, user_ratings_total = None, vicinity = None,
                   formatted_phone_number = None, business_status = None\<rparr>"

definition answers :: "open_status \<Rightarrow> DetailsResponse" where
  "answers v = \<lparr>dr_details = Some \<lparr>opening_hours = Some \<lparr>isOpen_fn = Some (Returns v)\<rparr>,
                                    d_formatted_phone_number = None,
                                    d_business_status = None\<rparr>,
                dr_status = ''OK''\<rparr>"

definition tieLookup :: "string \<Rightarrow> DetailsResponse" where
  "tieLookup pid =
     (if pid = ''closed'' then answers IsFalse
      else if pid = ''open'' then answers IsTrue
      else \<lparr>dr_details = None, dr_status = ''UNKNOWN_ERROR''\<rparr>)"

definition tieResults :: "PlaceResult list" where
  "tieResults = [unratedAt ''closed'', unratedAt ''unknown'', unratedAt ''open'']"

definition failedLookup :: "string \<Rightarrow> DetailsResponse" where
  "failedLookup pid = \<lparr>dr_details = None, dr_status = ''NOT_FOUND''\<rparr>"

definition openLookup :: "string \<Rightarrow> DetailsResponse" where
  "openLookup pid =
     \<lparr>dr_details = Some \<lparr>opening_hours = Some \<lparr>isOpen_fn = Some (Returns IsTrue)\<rparr>,
                          d_formatted_phone_number = Some ''011-5550100'',
                          d_business_status = Some ''OPERATIONAL''\<rparr>,
      dr_status = ''OK''\<rparr>"

definition rawPlace :: PlaceResult where
  "rawPlace = \<lparr>place_id = ''h1'', name = ''City Hospital'',
                geometry = Some \<lparr>location = Some delhi\<rparr>, rating = Some 4,
                user_ratings_total = Some 120, vicinity = Some ''Main Road'',
                formatted_phone_number = None, business_status = None\<rparr>"

definition enrichedSample :: ScoredPlace where
  "enrichedSample = \<lparr>place_id = ''h1'', name = ''City Hospital'',
                geometry = Some \<lparr>location = Some delhi\<rparr>, rating = Some 4,
                user_ratings_total = Some 120, vicinity = Some ''Main Road'',
                formatted_phone_number = Some ''011-5550100'',
                business_status = Some ''OPERATIONAL'',
                distance = 0, score = 55, isOpen = IsTrue\<rparr>"

definition okEmpty :: SearchResponse where
  "okEmpty = \<lparr>sr_results = Some [], sr_status = ''OK''\<rparr>"

definition zeroResults :: SearchResponse where
  "zeroResults = \<lparr>sr_results = Some [], sr_status = ''ZERO_RESULTS''\<rparr>"

definition priorRoute :: RouteInfo where
  "priorRoute = \<lparr>ri_distance = ''2 km'', ri_duration = ''5 mins'', ri_steps = []\<rparr>"

definition readyState :: UiState where
  "readyState = \<lparr>userLocation = Some delhi, places = [], loading = False, error = None,
                  selectedPlace = Some (samplePlace ''A'' 5 IsTrue), directions = None,
                  routeInfo = Some priorRoute, mapInstance = True,
                  directionsRenderer = NoRenderer\<rparr>"

definition searchingState :: UiState where
  "searchingState = \<lparr>userLocation = Some delhi, places = [], loading = True, error = None,
                      selectedPlace = None, directions = None, routeInfo = None,
                      mapInstance = True, directionsRenderer = NoRenderer\<rparr>"

section \<open>Properties\<close>

subsection \<open>Scoring\<close>

text \<open>The scenario of the specification: A at 1.0 km, rated 4.5 by 120 users, scores 10.5;
  B at 0.5 km, rated 3.0 by 10 users, scores 13.\<close>

lemma calculateScore_scenario:
  "calculateScore (zeroRated\<lparr>rating := Some 4.5, user_ratings_total := Some 120\<rparr>) 1.0 = 10.5
   \<and> calculateScore (zeroRated\<lparr>rating := Some 3.0, user_ratings_total := Some 10\<rparr>) 0.5 = 13"
  by (simp add: calculateScore_def or_default_def zeroRated_def)

text \<open>C2, as stated, fails for a rating of 0: \<^verbatim>\<open>place.rating || 3\<close> takes the default for
  every falsy rating, so the zero-rated sample scores 5 + 3 + 0 and not 5 + 0 + 0.\<close>

theorem calculateScore_rating_zero_counterexample:
  "calculateScore zeroRated 1 \<noteq> score_as_claimed zeroRated 1"
  by (simp add: calculateScore_def or_default_def score_as_claimed_def zeroRated_def)

lemma calculateScore_unfold:
  "calculateScore place d =
     5 / max d 0.1
     + (case rating place of None \<Rightarrow> 3 | Some r \<Rightarrow> if r = 0 then 3 else r)
     + (case user_ratings_total place of None \<Rightarrow> 0 | Some n \<Rightarrow> if n > 50 then 1 else 0)"
  by (simp add: calculateScore_def or_default_def split: option.split)

text \<open>C2 (amended): for every candidate and every distance \<open>d\<close> the score is
  \<open>5 / max d 0.1 + r + b\<close>, where \<open>r\<close> is the rating when a non-zero rating is present
  and 3 when the rating is absent or 0, and \<open>b\<close> is 1 when \<open>user_ratings_total\<close> exceeds
  50 and 0 otherwise, also when it is absent. So the score is the one the specification
  gives unless the rating is 0, and then it is 3 more.\<close>

theorem calculateScore_formula:
  "calculateScore place d =
     5 / max d 0.1
     + (case rating place of None \<Rightarrow> 3 | Some r \<Rightarrow> if r = 0 then 3 else r)
     + (case user_ratings_total place of None \<Rightarrow> 0 | Some n \<Rightarrow> if n > 50 then 1 else 0)
   \<and> (rating place \<noteq> Some 0 \<longrightarrow> calculateScore place d = score_as_claimed place d)
   \<and> (rating place = Some 0 \<longrightarrow> calculateScore place d = score_as_claimed place d + 3)"
proof -
  have same: "calculateScore place d = score_as_claimed place d" if "rating place \<noteq> Some 0"
  proof (cases "rating place")
    case None
    then show ?thesis by (simp add: calculateScore_unfold score_as_claimed_def)
  next
    case (Some r)
    with that have "r \<noteq> 0" by simp
    with Some show ?thesis by (simp add: calculateScore_unfold score_as_claimed_def)
  qed
  have zero: "calculateScore place d = score_as_claimed place d + 3" if "rating place = Some 0"
    using that by (simp add: calculateScore_unfold score_as_claimed_def)
  from same zero calculateScore_unfold [of place d] show ?thesis by blast
qed

theorem calculateScore_formula_witness:
  "rating (zeroRated\<lparr>rating := Some 4.5, user_ratings_total := Some 120\<rparr>) \<noteq> Some 0
   \<and> calculateScore (zeroRated\<lparr>rating := Some 4.5, user_ratings_total := Some 120\<rparr>) 1 = 10.5
   \<and> score_as_claimed (zeroRated\<lparr>rating := Some 4.5, user_ratings_total := Some 120\<rparr>) 1 = 10.5
   \<and> rating zeroRated = Some 0
   \<and> calculateScore zeroRated 1 = 8
   \<and> score_as_claimed zeroRated 1 = 5"
  using calculateScore_formula [of "zeroRated\<lparr>rating := Some 4.5, user_ratings_total := Some 120\<rparr>" 1]
    calculateScore_formula [of zeroRated 1]
  by (simp add: score_as_claimed_def zeroRated_def)

subsection \<open>Search query\<close>

lemma join_space_snoc:
  "join_space (xs @ [y]) = (if xs = [] then y else join_space xs @ '' '' @ y)"
  by (induction xs rule: join_space.induct) auto

lemma filterBoolean_append: "filterBoolean (xs @ ys) = filterBoolean xs @ filterBoolean ys"
  by (simp add: filterBoolean_def List.map_filter_def)

lemma filterBoolean_map_Some: "filterBoolean (map Some ks) = filter (\<lambda>s. s \<noteq> []) ks"
  by (induction ks) (auto simp: filterBoolean_def List.map_filter_def)

lemma query_eq:
  "query t =
     join_space (filter (\<lambda>s. s \<noteq> []) (case search_keywords t of None \<Rightarrow> [] | Some ks \<Rightarrow> ks)
                 @ (case department t of None \<Rightarrow> [] | Some d \<Rightarrow> if d = [] then [] else [d])
                 @ [''hospital''])"
proof -
  have "filterBoolean [department t, Some ''hospital''] =
        (case department t of None \<Rightarrow> [] | Some d \<Rightarrow> if d = [] then [] else [d]) @ [''hospital'']"
    by (simp add: filterBoolean_def List.map_filter_def split: option.split)
  then show ?thesis
    by (simp add: query_def filterBoolean_append filterBoolean_map_Some Let_def)
qed

text \<open>C4: the search radius is 20000 m for urgency \<open>emergency\<close>, 15000 m for
  \<open>urgent\<close> and 10000 m for anything else; the query is the space-joined list of the
  non-empty keywords, then the department (when it is not empty), then \<open>hospital\<close>. For
  urgency \<open>urgent\<close>, department \<open>Cardiology\<close> and no keywords the radius is 15000 m and
  the query is \<open>Cardiology hospital\<close>.\<close>

theorem search_policy:
  "(urgencyOf t = Some ''emergency'' \<longrightarrow> getSearchRadius t = 20000)
   \<and> (urgencyOf t = Some ''urgent'' \<longrightarrow> getSearchRadius t = 15000)
   \<and> (urgencyOf t \<noteq> Some ''emergency'' \<and> urgencyOf t \<noteq> Some ''urgent''
        \<longrightarrow> getSearchRadius t = 10000)
   \<and> query r =
       join_space (filter (\<lambda>s. s \<noteq> []) (case search_keywords r of None \<Rightarrow> [] | Some ks \<Rightarrow> ks)
                   @ (case department r of None \<Rightarrow> [] | Some d \<Rightarrow> if d = [] then [] else [d])
                   @ [''hospital''])
   \<and> (urgency r = Some ''urgent'' \<and> department r = Some ''Cardiology''
        \<and> search_keywords r = Some []
        \<longrightarrow> getSearchRadius (Some r) = 15000 \<and> query r = ''Cardiology hospital''
            \<and> textSearchRequest loc r =
                \<lparr>req_location = loc, req_radius = 15000,
                 req_query = ''Cardiology hospital''\<rparr>)"
proof -
  have rad: "(urgencyOf t = Some ''emergency'' \<longrightarrow> getSearchRadius t = 20000)
     \<and> (urgencyOf t = Some ''urgent'' \<longrightarrow> getSearchRadius t = 15000)
     \<and> (urgencyOf t \<noteq> Some ''emergency'' \<and> urgencyOf t \<noteq> Some ''urgent''
          \<longrightarrow> getSearchRadius t = 10000)"
    by (simp add: getSearchRadius_def)
  have scen: "getSearchRadius (Some r) = 15000 \<and> query r = ''Cardiology hospital''
            \<and> textSearchRequest loc r =
                \<lparr>req_location = loc, req_radius = 15000,
                 req_query = ''Cardiology hospital''\<rparr>"
    if "urgency r = Some ''urgent''" "department r = Some ''Cardiology''"
       "search_keywords r = Some []"
  proof -
    have q: "query r = ''Cardiology hospital''"
      using that by (simp add: query_eq)
    have "getSearchRadius (Some r) = 15000"
      using that by (simp add: getSearchRadius_def urgencyOf_def)
    with q show ?thesis by (simp add: requestQuery_def textSearchRequest_def)
  qed
  from rad scen query_eq [of r] show ?thesis by blast
qed

theorem search_policy_witness:
  "urgencyOf (Some cardiologyTriage) = Some ''urgent''
   \<and> getSearchRadius (Some cardiologyTriage) = 15000
   \<and> query cardiologyTriage = ''Cardiology hospital''
   \<and> textSearchRequest delhi cardiologyTriage =
       \<lparr>req_location = delhi, req_radius = 15000, req_query = ''Cardiology hospital''\<rparr>
   \<and> urgencyOf (triageWith ''emergency'') = Some ''emergency''
   \<and> getSearchRadius (triageWith ''emergency'') = 20000
   \<and> getSearchRadius (triageWith ''routine'') = 10000"
proof -
  have a: "urgencyOf (Some cardiologyTriage) = Some ''urgent''"
    by (simp add: urgencyOf_def cardiologyTriage_def)
  have b: "urgency cardiologyTriage = Some ''urgent''
        \<and> department cardiologyTriage = Some ''Cardiology''
        \<and> search_keywords cardiologyTriage = Some []"
    by (simp add: cardiologyTriage_def)
  have c: "urgencyOf (triageWith ''emergency'') = Some ''emergency''"
    by (simp add: urgencyOf_def triageWith_def)
  have d: "urgencyOf (triageWith ''routine'') \<noteq> Some ''emergency''
         \<and> urgencyOf (triageWith ''routine'') \<noteq> Some ''urgent''"
    by (simp add: urgencyOf_def triageWith_def)
  show ?thesis
    using search_policy [of "Some cardiologyTriage" cardiologyTriage delhi]
      search_policy [of "triageWith ''emergency''" cardiologyTriage delhi]
      search_policy [of "triageWith ''routine''" cardiologyTriage delhi] a b c d
    by simp
qed

lemma suffix_join_space: "suffix y (join_space (xs @ [y]))"
proof (cases "xs = []")
  case True
  then show ?thesis by simp
next
  case False
  then have "join_space (xs @ [y]) = (join_space xs @ '' '') @ y"
    by (simp add: join_space_snoc)
  then show ?thesis
    by (simp only: suffix_def) blast
qed

text \<open>C9: for every triage result, whatever its keywords and department (empty and
  absent ones included), the composed query ends with the term \<open>hospital\<close>, so it is
  not empty and the request carries the composed query, never the
  \<open>hospital near me\<close> operand.\<close>

theorem query_contains_hospital:
  "query t \<noteq> [] \<and> suffix ''hospital'' (query t) \<and> requestQuery t = (query t, False)
   \<and> req_query (textSearchRequest loc t) = query t"
proof -
  have s: "suffix ''hospital'' (query t)"
    by (simp only: query_eq append_assoc [symmetric] suffix_join_space)
  have "query t \<noteq> []"
  proof
    assume "query t = []"
    with s have "suffix ''hospital'' ([] :: string)" by simp
    then show False by simp
  qed
  with s show ?thesis by (simp add: requestQuery_def textSearchRequest_def)
qed

subsection \<open>Distance\<close>

lemma cos_product: "cos (w - u) * cos (w + u) = (cos w)\<^sup>2 - (sin u)\<^sup>2" for w u :: real
proof -
  have "cos (w - u) * cos (w + u) =
        (cos w * cos u + sin w * sin u) * (cos w * cos u - sin w * sin u)"
    by (simp only: cos_add cos_diff)
  also have "\<dots> = (cos w)\<^sup>2 * (cos u)\<^sup>2 - (sin w)\<^sup>2 * (sin u)\<^sup>2"
    by (simp add: power2_eq_square algebra_simps)
  also have "\<dots> = (cos w)\<^sup>2 * (1 - (sin u)\<^sup>2) - (1 - (cos w)\<^sup>2) * (sin u)\<^sup>2"
    by (simp only: cos_squared_eq [of u] sin_squared_eq [of w])
  also have "\<dots> = (cos w)\<^sup>2 - (sin u)\<^sup>2"
    by (simp add: algebra_simps)
  finally show ?thesis .
qed

text \<open>In exact arithmetic the term \<^verbatim>\<open>a\<close> is a sum of two products of squares, so it
  lies between 0 and 1 and both square roots of \<^verbatim>\<open>calculateDistance\<close> are taken of
  non-negative numbers.\<close>

lemma haversine_a_squares:
  "haversine_a lat1 lng1 lat2 lng2 =
     (sin (radians (lat2 - lat1) / 2))\<^sup>2 * (cos (radians (lng2 - lng1) / 2))\<^sup>2
     + (cos (radians (lat1 + lat2) / 2))\<^sup>2 * (sin (radians (lng2 - lng1) / 2))\<^sup>2"
proof -
  define u where "u = radians (lat2 - lat1) / 2"
  define w where "w = radians (lat1 + lat2) / 2"
  define v where "v = radians (lng2 - lng1) / 2"
  have x: "lat1 * pi / 180 = w - u" and y: "lat2 * pi / 180 = w + u"
    by (simp_all add: u_def w_def radians_def field_simps)
  have "haversine_a lat1 lng1 lat2 lng2 = (sin u)\<^sup>2 + (cos (w - u) * cos (w + u)) * (sin v)\<^sup>2"
    unfolding haversine_a_def Let_def x y
    by (simp add: u_def v_def radians_def power2_eq_square)
  also have "\<dots> = (sin u)\<^sup>2 * (1 - (sin v)\<^sup>2) + (cos w)\<^sup>2 * (sin v)\<^sup>2"
    by (simp only: cos_product) (simp add: algebra_simps)
  also have "1 - (sin v)\<^sup>2 = (cos v)\<^sup>2"
    by (simp add: cos_squared_eq)
  finally show ?thesis by (simp add: u_def v_def w_def)
qed

lemma haversine_a_range:
  "0 \<le> haversine_a lat1 lng1 lat2 lng2 \<and> haversine_a lat1 lng1 lat2 lng2 \<le> 1"
proof -
  define su where "su = (sin (radians (lat2 - lat1) / 2))\<^sup>2"
  define cw where "cw = (cos (radians (lat1 + lat2) / 2))\<^sup>2"
  define sv where "sv = (sin (radians (lng2 - lng1) / 2))\<^sup>2"
  define cv where "cv = (cos (radians (lng2 - lng1) / 2))\<^sup>2"
  have a: "haversine_a lat1 lng1 lat2 lng2 = su * cv + cw * sv"
    by (simp add: haversine_a_squares su_def cw_def sv_def cv_def)
  have nn: "0 \<le> su" "0 \<le> cw" "0 \<le> sv" "0 \<le> cv"
    by (simp_all add: su_def cw_def sv_def cv_def)
  have le: "su \<le> 1" "cw \<le> 1"
    by (simp_all add: su_def cw_def abs_square_le_1)
  have one: "sv + cv = 1"
    by (simp add: sv_def cv_def)
  have "su * cv \<le> 1 * cv" "cw * sv \<le> 1 * sv"
    using nn le by (intro mult_right_mono; simp)+
  then have "su * cv + cw * sv \<le> 1" using one by simp
  moreover have "0 \<le> su * cv + cw * sv" using nn by simp
  ultimately show ?thesis by (simp add: a)
qed

lemma atan2_sqrt_arcsin:
  assumes "0 \<le> a" "a \<le> 1"
  shows "atan2 (sqrt a) (sqrt (1 - a)) = arcsin (sqrt a)"
proof (cases "a = 1")
  case True
  then show ?thesis by (simp add: atan2_def)
next
  case False
  with assms have lt: "a < 1" by simp
  then have pos: "0 < sqrt (1 - a)" by simp
  have up: "sqrt a < 1" using lt by simp
  have "0 \<le> sqrt a" using assms by simp
  then have lo: "- 1 < sqrt a" by linarith
  have "arcsin (sqrt a) = arctan (sqrt a / sqrt (1 - (sqrt a)\<^sup>2))"
    by (rule arcsin_arctan [OF lo up])
  also have "(sqrt a)\<^sup>2 = a" using assms by simp
  finally show ?thesis using pos by (simp add: atan2_def)
qed

lemma calculateDistance_same: "calculateDistance x y x y = 0"
  by (simp add: calculateDistance_def haversine_a_def atan2_def)

text \<open>In exact arithmetic \<^verbatim>\<open>calculateDistance\<close> is the haversine great-circle distance
  on a sphere of radius 6371 km, it is symmetric in its two points, and the distance of
  a point to itself is 0. This is a fact about the formula, not about the doubles of the
  program: there the result can be \<^verbatim>\<open>NaN\<close> for nearly antipodal points, which is not
  equal to itself, so the symmetry and the equality with the reference distance of
  claim C5 are not settled by this lemma.\<close>

lemma calculateDistance_exact:
  "calculateDistance lat1 lng1 lat2 lng2 = haversine_reference lat1 lng1 lat2 lng2
   \<and> calculateDistance lat1 lng1 lat2 lng2 = calculateDistance lat2 lng2 lat1 lng1
   \<and> calculateDistance lat1 lng1 lat1 lng1 = 0"
proof -
  have ref: "calculateDistance p q r s = haversine_reference p q r s" for p q r s
  proof -
    have "atan2 (sqrt (haversine_a p q r s)) (sqrt (1 - haversine_a p q r s))
          = arcsin (sqrt (haversine_a p q r s))"
      using haversine_a_range [of p q r s] by (intro atan2_sqrt_arcsin) simp_all
    moreover have "haversine_a p q r s =
        (sin (radians (r - p) / 2))\<^sup>2
        + cos (radians p) * cos (radians r) * (sin (radians (s - q) / 2))\<^sup>2"
      by (simp add: haversine_a_def radians_def power2_eq_square Let_def)
    ultimately show ?thesis
      by (simp add: calculateDistance_def haversine_reference_def Let_def)
  qed
  have sym_a: "haversine_a lat1 lng1 lat2 lng2 = haversine_a lat2 lng2 lat1 lng1"
  proof -
    have neg: "sin ((y - x) * pi / 180 / 2) = - sin ((x - y) * pi / 180 / 2)" for x y :: real
    proof -
      have "(y - x) * pi / 180 / 2 = - ((x - y) * pi / 180 / 2)"
        by (simp add: field_simps)
      then show ?thesis by (simp only: sin_minus)
    qed
    have "sin ((lat2 - lat1) * pi / 180 / 2) = - sin ((lat1 - lat2) * pi / 180 / 2)"
      by (rule neg)
    moreover have "sin ((lng2 - lng1) * pi / 180 / 2) = - sin ((lng1 - lng2) * pi / 180 / 2)"
      by (rule neg)
    ultimately show ?thesis
      by (simp add: haversine_a_def Let_def)
  qed
  have sym: "calculateDistance lat1 lng1 lat2 lng2 = calculateDistance lat2 lng2 lat1 lng1"
    by (simp add: calculateDistance_def sym_a)
  have zero: "calculateDistance lat1 lng1 lat1 lng1 = 0"
    by (rule calculateDistance_same)
  from ref sym zero show ?thesis by simp
qed

subsection \<open>Sorting and the final list\<close>

lemma mset_insert_by: "mset (insert_by cmp x xs) = add_mset x (mset xs)"
  by (induction xs) auto

lemma mset_sort_by: "mset (sort_by cmp xs) = mset xs"
  by (induction xs) (auto simp: mset_insert_by)

lemma set_sort_by: "set (sort_by cmp xs) = set xs"
  by (metis mset_sort_by set_mset_mset)

lemma length_sort_by: "length (sort_by cmp xs) = length xs"
  by (metis mset_sort_by size_mset)

lemma mset_filteredPlaces:
  "mset (filteredPlaces t ps) = filter_mset (keepPlace t) (mset ps)"
  by (simp add: filteredPlaces_def sortedPlaces_def mset_sort_by)

lemma set_finalPlaces: "set (finalPlaces t ps) \<subseteq> set ps"
proof -
  have "set (finalPlaces t ps) \<subseteq> set (filteredPlaces t ps)"
    by (simp add: finalPlaces_def set_take_subset)
  also have "\<dots> \<subseteq> set ps"
    by (simp add: filteredPlaces_def sortedPlaces_def set_sort_by)
  finally show ?thesis .
qed

text \<open>The scenario of the specification: with urgency \<open>emergency\<close>, the closed candidate
  with the highest score is left out, and the three results are the two open candidates
  and the best of unknown status.\<close>

lemma finalPlaces_five:
  "finalPlaces (triageWith ''emergency'') fiveCandidates =
     [samplePlace ''A'' 5 IsTrue, samplePlace ''D'' 3 IsTrue, samplePlace ''B'' 4 IsNull]"
  by (simp add: finalPlaces_def filteredPlaces_def sortedPlaces_def resultCap_def keepPlace_def
      compareFinal_def urgencyOf_def triageWith_def fiveCandidates_def samplePlace_def)

text \<open>C1: for every urgency and every list of enriched candidates, the final list has at
  most 3 elements when the urgency is \<open>emergency\<close> and at most 5 otherwise; for urgency
  \<open>emergency\<close> it holds no candidate whose open status is \<open>false\<close>, whatever its score.
  The final list is the truncation of the filtered list, which holds exactly the input
  candidates other than the closed ones of an emergency: candidates of unknown status
  pass the filter.\<close>

theorem finalPlaces_bounded_open:
  "length (finalPlaces t ps) \<le> (if urgencyOf t = Some ''emergency'' then 3 else 5)
   \<and> (urgencyOf t = Some ''emergency'' \<longrightarrow> (\<forall>p \<in> set (finalPlaces t ps). isOpen p \<noteq> IsFalse))
   \<and> set (finalPlaces t ps) \<subseteq> set ps
   \<and> finalPlaces t ps =
       take (if urgencyOf t = Some ''emergency'' then 3 else 5) (filteredPlaces t ps)
   \<and> mset (filteredPlaces t ps) =
       filter_mset (\<lambda>p. \<not> (urgencyOf t = Some ''emergency'' \<and> isOpen p = IsFalse)) (mset ps)"
proof -
  have len: "length (finalPlaces t ps) \<le> (if urgencyOf t = Some ''emergency'' then 3 else 5)"
    by (simp add: finalPlaces_def resultCap_def)
  have sub: "set (finalPlaces t ps) \<subseteq> set (filteredPlaces t ps)"
    by (simp add: finalPlaces_def set_take_subset)
  have fil: "set (filteredPlaces t ps) = {p \<in> set ps. keepPlace t p}"
    by (simp add: filteredPlaces_def sortedPlaces_def set_sort_by)
  have opn: "urgencyOf t = Some ''emergency'' \<longrightarrow>
             (\<forall>p \<in> set (finalPlaces t ps). isOpen p \<noteq> IsFalse)"
    using sub fil by (auto simp: keepPlace_def)
  have inp: "set (finalPlaces t ps) \<subseteq> set ps"
    by (rule set_finalPlaces)
  have tk: "finalPlaces t ps =
            take (if urgencyOf t = Some ''emergency'' then 3 else 5) (filteredPlaces t ps)"
    by (simp add: finalPlaces_def resultCap_def)
  have "keepPlace t = (\<lambda>p. \<not> (urgencyOf t = Some ''emergency'' \<and> isOpen p = IsFalse))"
    by (auto simp: keepPlace_def fun_eq_iff)
  then have ms: "mset (filteredPlaces t ps) =
       filter_mset (\<lambda>p. \<not> (urgencyOf t = Some ''emergency'' \<and> isOpen p = IsFalse)) (mset ps)"
    using mset_filteredPlaces [of t ps] by simp
  from len opn inp tk ms show ?thesis by blast
qed

theorem finalPlaces_bounded_open_witness:
  "urgencyOf (triageWith ''emergency'') = Some ''emergency''
   \<and> length (finalPlaces (triageWith ''emergency'') fiveCandidates) \<le> 3
   \<and> samplePlace ''C'' 9 IsFalse \<notin> set (finalPlaces (triageWith ''emergency'') fiveCandidates)
   \<and> samplePlace ''B'' 4 IsNull \<in># mset (filteredPlaces (triageWith ''emergency'') fiveCandidates)"
proof -
  have u: "urgencyOf (triageWith ''emergency'') = Some ''emergency''"
    by (simp add: urgencyOf_def triageWith_def)
  have c: "samplePlace ''C'' 9 IsFalse \<in> set fiveCandidates"
          "samplePlace ''B'' 4 IsNull \<in> set fiveCandidates"
    by (simp_all add: fiveCandidates_def)
  have s: "isOpen (samplePlace ''C'' 9 IsFalse) = IsFalse"
          "isOpen (samplePlace ''B'' 4 IsNull) = IsNull"
    by (simp_all add: samplePlace_def)
  show ?thesis
    using finalPlaces_bounded_open [of "triageWith ''emergency''" fiveCandidates] u c s
    by auto
qed

subsection \<open>The phase-2 comparator\<close>

text \<open>For urgency \<open>emergency\<close> the comparator is a consistent one: it orders by
  "known open" first and by descending score second, so it is transitive and total.\<close>

lemma compareFinal_emergency_le:
  assumes "urgencyOf t = Some ''emergency''"
  shows "compareFinal t a b \<le> 0 \<longleftrightarrow>
           (isOpen a = IsTrue \<and> isOpen b \<noteq> IsTrue)
           \<or> ((isOpen a = IsTrue) = (isOpen b = IsTrue) \<and> score b \<le> score a)"
  using assms
  by (cases "isOpen a = IsTrue"; cases "isOpen b = IsTrue"; simp add: compareFinal_def)

lemma compareFinal_emergency_trans:
  assumes "urgencyOf t = Some ''emergency''"
    and "compareFinal t a b \<le> 0" and "compareFinal t b c \<le> 0"
  shows "compareFinal t a c \<le> 0"
  using assms(2,3) unfolding compareFinal_emergency_le [OF assms(1)]
  by (cases "isOpen a = IsTrue"; cases "isOpen b = IsTrue"; cases "isOpen c = IsTrue"; simp)

lemma compareFinal_emergency_total:
  assumes "urgencyOf t = Some ''emergency''"
  shows "compareFinal t a b \<le> 0 \<or> compareFinal t b a \<le> 0"
  unfolding compareFinal_emergency_le [OF assms]
  by (cases "isOpen a = IsTrue"; cases "isOpen b = IsTrue"; simp; linarith)

lemma set_insert_by: "set (insert_by cmp x xs) = insert x (set xs)"
  by (metis mset_insert_by set_mset_add_mset_insert set_mset_mset)

lemma sorted_insert_by:
  assumes trans: "\<And>a b c. cmp a b \<le> 0 \<Longrightarrow> cmp b c \<le> 0 \<Longrightarrow> cmp a c \<le> 0"
    and total: "\<And>a b. cmp a b \<le> 0 \<or> cmp b a \<le> 0"
    and "sorted_wrt (\<lambda>a b. cmp a b \<le> 0) xs"
  shows "sorted_wrt (\<lambda>a b. cmp a b \<le> 0) (insert_by cmp x xs)"
  using assms(3)
proof (induction xs)
  case Nil
  then show ?case by simp
next
  case (Cons y ys)
  show ?case
  proof (cases "cmp x y \<le> 0")
    case True
    then have "\<forall>z \<in> set ys. cmp x z \<le> 0"
      using Cons.prems trans by auto
    with True Cons.prems show ?thesis by simp
  next
    case False
    then have "cmp y x \<le> 0" using total [of x y] by simp
    with False Cons show ?thesis by (auto simp: set_insert_by)
  qed
qed

lemma sorted_sort_by:
  assumes "\<And>a b c. cmp a b \<le> 0 \<Longrightarrow> cmp b c \<le> 0 \<Longrightarrow> cmp a c \<le> 0"
    and "\<And>a b. cmp a b \<le> 0 \<or> cmp b a \<le> 0"
  shows "sorted_wrt (\<lambda>a b. cmp a b \<le> 0) (sort_by cmp xs)"
  by (induction xs) (simp_all add: sorted_insert_by [OF assms])

text \<open>So for urgency \<open>emergency\<close> the re-sorted list is ordered: no candidate that is
  not known to be open stands before one that is, and within each of the two groups the
  scores descend.\<close>

lemma sortedPlaces_emergency:
  assumes "urgencyOf t = Some ''emergency''"
  shows "sorted_wrt (\<lambda>a b. compareFinal t a b \<le> 0) (sortedPlaces t ps)"
  unfolding sortedPlaces_def
proof (rule sorted_sort_by)
  show "compareFinal t a c \<le> 0" if "compareFinal t a b \<le> 0" "compareFinal t b c \<le> 0" for a b c
    using that by (rule compareFinal_emergency_trans [OF assms])
  show "compareFinal t a b \<le> 0 \<or> compareFinal t b a \<le> 0" for a b
    by (rule compareFinal_emergency_total [OF assms])
qed

text \<open>Every detail promise resolves, so the joined promise resolves with the enriched
  candidates in the order of phase 1, and \<^verbatim>\<open>processResults\<close> always reaches its
  \<^verbatim>\<open>then\<close> handler.\<close>

lemma promise_all_resolved: "promise_all (map Resolved xs) = Resolved xs"
  by (induction xs) auto

lemma placesWithDetails_resolved:
  "placesWithDetails t loc getDetails results =
     Resolved (map (\<lambda>p. detailsCallback p (getDetails (place_id p)))
                   (initialScored t loc results))"
proof -
  have "map (detailsPromise getDetails) xs =
        map Resolved (map (\<lambda>p. detailsCallback p (getDetails (place_id p))) xs)" for xs
    by (simp add: detailsPromise_def)
  then show ?thesis
    by (simp only: placesWithDetails_def promise_all_resolved)
qed

lemma processResults_eq:
  "processResults t loc getDetails results st =
     st\<lparr>places := finalPlaces t (map (\<lambda>p. detailsCallback p (getDetails (place_id p)))
                                     (initialScored t loc results)),
        loading := False\<rparr>"
  by (simp add: processResults_def placesWithDetails_resolved)

lemma scorePlace_unratedAt:
  "scorePlace delhi (unratedAt i) =
     Some \<lparr>place_id = i, name = i,
           geometry = Some \<lparr>location = Some delhi\<rparr>,
           rating = None, user_ratings_total = None, vicinity = None,
           formatted_phone_number = None, business_status = None,
           distance = 0, score = 53, isOpen = IsNull\<rparr>"
  by (simp add: scorePlace_def unratedAt_def calculateDistance_same calculateScore_def
      or_default_def)

lemma tieResults_places:
  "map (\<lambda>p. (place_id p, score p, isOpen p))
       (places (processResults (triageWith ''routine'') delhi
                  tieLookup tieResults st))
   = [(''closed'', 53, IsFalse), (''unknown'', 53, IsNull), (''open'', 53, IsTrue)]"
proof -
  have i: "initialScored (triageWith ''routine'') delhi tieResults =
           map (\<lambda>i. \<lparr>place_id = i, name = i,
                       geometry = Some \<lparr>location = Some delhi\<rparr>,
                       rating = None, user_ratings_total = None, vicinity = None,
                       formatted_phone_number = None, business_status = None,
                       distance = 0, score = 53, isOpen = IsNull\<rparr>)
               [''closed'', ''unknown'', ''open'']"
    by (simp add: initialScored_def tieResults_def List.map_filter_def scorePlace_unratedAt
        compareScore_def preFilterCap_def urgencyOf_def triageWith_def)
  show ?thesis
    unfolding processResults_eq i
    by (simp add: detailsCallback_def tieLookup_def answers_def detailsIsOpen_def or_null_def
        PlacesServiceStatus_OK_def finalPlaces_def filteredPlaces_def sortedPlaces_def
        resultCap_def keepPlace_def compareFinal_def urgencyOf_def triageWith_def)
qed

text \<open>C3 does not hold of the code. For an urgency other than \<open>emergency\<close> the
  comparator is not transitive once a candidate of unknown status is present: with equal
  scores it ranks the closed and the unknown candidate as equal, the unknown and the open
  one as equal, and yet the closed one after the open one; the list closed, unknown, open
  is returned in that order, the closed candidate before the open one of equal score.
  \<^verbatim>\<open>processResults\<close> stores that list for three unrated search results at one place
  whose lookups answer closed, fail, and answer open. With scores 1 (open), 3 (closed) and
  2 (unknown) the three comparisons form a strict cycle.\<close>

theorem compareFinal_inconsistent:
  "compareFinal (triageWith ''routine'') closedP unknownP = 0
   \<and> compareFinal (triageWith ''routine'') unknownP openP = 0
   \<and> compareFinal (triageWith ''routine'') closedP openP = 1
   \<and> score closedP = score openP
   \<and> finalPlaces (triageWith ''routine'') [closedP, unknownP, openP] = [closedP, unknownP, openP]
   \<and> map (\<lambda>p. (place_id p, score p, isOpen p))
        (places (processResults (triageWith ''routine'') delhi
                   tieLookup tieResults searchingState))
      = [(''closed'', 53, IsFalse), (''unknown'', 53, IsNull), (''open'', 53, IsTrue)]
   \<and> compareFinal (triageWith ''routine'')
        (samplePlace ''o'' 1 IsTrue) (samplePlace ''c'' 3 IsFalse) < 0
   \<and> compareFinal (triageWith ''routine'')
        (samplePlace ''c'' 3 IsFalse) (samplePlace ''u'' 2 IsNull) < 0
   \<and> compareFinal (triageWith ''routine'')
        (samplePlace ''u'' 2 IsNull) (samplePlace ''o'' 1 IsTrue) < 0"
proof -
  have cmp: "compareFinal (triageWith ''routine'') closedP unknownP = 0
   \<and> compareFinal (triageWith ''routine'') unknownP openP = 0
   \<and> compareFinal (triageWith ''routine'') closedP openP = 1
   \<and> score closedP = score openP"
    by (simp add: compareFinal_def urgencyOf_def triageWith_def closedP_def unknownP_def
        openP_def samplePlace_def)
  have srt: "finalPlaces (triageWith ''routine'') [closedP, unknownP, openP]
             = [closedP, unknownP, openP]"
    by (simp add: finalPlaces_def filteredPlaces_def sortedPlaces_def resultCap_def
        keepPlace_def compareFinal_def urgencyOf_def triageWith_def closedP_def unknownP_def
        openP_def samplePlace_def)
  have cyc: "compareFinal (triageWith ''routine'')
        (samplePlace ''o'' 1 IsTrue) (samplePlace ''c'' 3 IsFalse) < 0
   \<and> compareFinal (triageWith ''routine'')
        (samplePlace ''c'' 3 IsFalse) (samplePlace ''u'' 2 IsNull) < 0
   \<and> compareFinal (triageWith ''routine'')
        (samplePlace ''u'' 2 IsNull) (samplePlace ''o'' 1 IsTrue) < 0"
    by (simp add: compareFinal_def urgencyOf_def triageWith_def samplePlace_def)
  from cmp srt cyc tieResults_places [of searchingState] show ?thesis by blast
qed

subsection \<open>Detail lookups\<close>

lemma detailsCallback_unusable: "lookupUnusable r \<Longrightarrow> isOpen (detailsCallback p r) = IsNull"
  by (auto simp: lookupUnusable_def detailsCallback_def detailsIsOpen_def
      split: option.splits isOpen_call.splits)

lemma detailsCallback_boolean:
  assumes "isOpen (detailsCallback p r) = IsTrue \<or> isOpen (detailsCallback p r) = IsFalse"
  shows "\<exists>d h. dr_status r = PlacesServiceStatus_OK \<and> dr_details r = Some d
               \<and> opening_hours d = Some h
               \<and> isOpen_fn h = Some (Returns (isOpen (detailsCallback p r)))"
  using assms
  by (auto simp: detailsCallback_def detailsIsOpen_def
      split: option.splits isOpen_call.splits if_splits)

text \<open>C6: when the detail lookup of a candidate fails, returns no data, or returns data
  without an \<^verbatim>\<open>isOpen\<close> method that answers, the candidate's promise still resolves and
  its open status is \<^verbatim>\<open>null\<close>; a status of \<open>true\<close> or \<open>false\<close> is always the answer of
  the lookup's own \<^verbatim>\<open>isOpen\<close> method. Whatever the lookups return, the joined promise
  resolves with one entry per phase-1 candidate, and \<^verbatim>\<open>processResults\<close> stores the final
  list, ends the loading state and leaves the error as it was.\<close>

theorem details_failure_unknown:
  "(lookupUnusable (getDetails (place_id place)) \<longrightarrow>
      (\<exists>q. detailsPromise getDetails place = Resolved q \<and> isOpen q = IsNull))
   \<and> (\<forall>q. detailsPromise getDetails place = Resolved q
            \<and> (isOpen q = IsTrue \<or> isOpen q = IsFalse) \<longrightarrow>
          (\<exists>d h. dr_status (getDetails (place_id place)) = PlacesServiceStatus_OK
                 \<and> dr_details (getDetails (place_id place)) = Some d
                 \<and> opening_hours d = Some h \<and> isOpen_fn h = Some (Returns (isOpen q))))
   \<and> (\<exists>ps. placesWithDetails t loc getDetails results = Resolved ps
            \<and> length ps = length (initialScored t loc results))
   \<and> error (processResults t loc getDetails results st) = error st
   \<and> loading (processResults t loc getDetails results st) = False
   \<and> places (processResults t loc getDetails results st) =
       finalPlaces t (map (\<lambda>p. detailsCallback p (getDetails (place_id p)))
                          (initialScored t loc results))"
proof -
  have a: "lookupUnusable (getDetails (place_id place)) \<longrightarrow>
      (\<exists>q. detailsPromise getDetails place = Resolved q \<and> isOpen q = IsNull)"
    by (simp add: detailsPromise_def detailsCallback_unusable)
  have a': "\<forall>q. detailsPromise getDetails place = Resolved q
            \<and> (isOpen q = IsTrue \<or> isOpen q = IsFalse) \<longrightarrow>
          (\<exists>d h. dr_status (getDetails (place_id place)) = PlacesServiceStatus_OK
                 \<and> dr_details (getDetails (place_id place)) = Some d
                 \<and> opening_hours d = Some h \<and> isOpen_fn h = Some (Returns (isOpen q)))"
  proof (intro allI impI)
    fix q
    assume h: "detailsPromise getDetails place = Resolved q
               \<and> (isOpen q = IsTrue \<or> isOpen q = IsFalse)"
    then have q: "q = detailsCallback place (getDetails (place_id place))"
      by (simp add: detailsPromise_def)
    from detailsCallback_boolean [of place "getDetails (place_id place)"] h
    show "\<exists>d h. dr_status (getDetails (place_id place)) = PlacesServiceStatus_OK
                 \<and> dr_details (getDetails (place_id place)) = Some d
                 \<and> opening_hours d = Some h \<and> isOpen_fn h = Some (Returns (isOpen q))"
      unfolding q by blast
  qed
  have b: "\<exists>ps. placesWithDetails t loc getDetails results = Resolved ps
            \<and> length ps = length (initialScored t loc results)"
    by (simp add: placesWithDetails_resolved)
  have c: "error (processResults t loc getDetails results st) = error st"
    "loading (processResults t loc getDetails results st) = False"
    "places (processResults t loc getDetails results st) =
       finalPlaces t (map (\<lambda>p. detailsCallback p (getDetails (place_id p)))
                          (initialScored t loc results))"
    by (simp_all add: processResults_eq)
  from a a' b c show ?thesis by blast
qed

theorem details_failure_unknown_witness:
  "lookupUnusable (failedLookup (place_id (samplePlace ''A'' 5 IsNull)))
   \<and> detailsPromise failedLookup (samplePlace ''A'' 5 IsNull) = Resolved (samplePlace ''A'' 5 IsNull)
   \<and> detailsPromise openLookup (samplePlace ''A'' 5 IsNull) =
       Resolved ((samplePlace ''A'' 5 IsTrue)\<lparr>formatted_phone_number := Some ''011-5550100'',
                                               business_status := Some ''OPERATIONAL''\<rparr>)"
  using details_failure_unknown [of failedLookup "samplePlace ''A'' 5 IsNull"]
    details_failure_unknown [of openLookup "samplePlace ''A'' 5 IsNull"]
  by (simp add: lookupUnusable_def failedLookup_def openLookup_def detailsPromise_def
      detailsCallback_def detailsIsOpen_def or_null_def samplePlace_def
      PlacesServiceStatus_OK_def)

subsection \<open>Directions\<close>

text \<open>C7: when the route computation answers with a status other than \<^verbatim>\<open>OK\<close>, nothing
  is thrown, no error is set, and the route info, the selected place and the stored
  directions are those of the state before; the state is unchanged but for the renderer
  object, which is created (showing nothing) when there was none.\<close>

theorem showDirections_failure:
  assumes "status \<noteq> DirectionsStatus_OK"
  shows "fst (showDirections place result status st) = None
   \<and> routeInfo (snd (showDirections place result status st)) = routeInfo st
   \<and> selectedPlace (snd (showDirections place result status st)) = selectedPlace st
   \<and> directions (snd (showDirections place result status st)) = directions st
   \<and> error (snd (showDirections place result status st)) = error st
   \<and> (snd (showDirections place result status st) = st
       \<or> directionsRenderer st = NoRenderer
          \<and> snd (showDirections place result status st)
              = st\<lparr>directionsRenderer := Renderer None\<rparr>)"
  using assms by (cases "directionsRenderer st") (simp_all add: showDirections_def)

theorem showDirections_failure_witness:
  "''ZERO_RESULTS'' \<noteq> DirectionsStatus_OK
   \<and> showDirections (samplePlace ''B'' 4 IsNull) None ''ZERO_RESULTS'' readyState
       = (None, readyState\<lparr>directionsRenderer := Renderer None\<rparr>)
   \<and> routeInfo (snd (showDirections (samplePlace ''B'' 4 IsNull) None ''ZERO_RESULTS'' readyState))
       = Some priorRoute"
proof -
  have ne: "''ZERO_RESULTS'' \<noteq> DirectionsStatus_OK"
    by (simp add: DirectionsStatus_OK_def)
  have r: "directionsRenderer readyState = NoRenderer" "routeInfo readyState = Some priorRoute"
    "mapInstance readyState" "userLocation readyState \<noteq> None"
    by (simp_all add: readyState_def)
  have "showDirections (samplePlace ''B'' 4 IsNull) None ''ZERO_RESULTS'' readyState
       = (None, readyState\<lparr>directionsRenderer := Renderer None\<rparr>)"
    using ne r by (auto simp: showDirections_def)
  then show ?thesis
    using showDirections_failure [OF ne, of "samplePlace ''B'' 4 IsNull" None readyState] ne r
    by simp
qed

subsection \<open>Empty results and the search error\<close>

lemma initialScored_empty: "initialScored t loc [] = []"
  by (simp add: initialScored_def List.map_filter_def)

lemma finalPlaces_empty: "finalPlaces t [] = []"
  by (simp add: finalPlaces_def filteredPlaces_def sortedPlaces_def)

lemma textSearchCallback_cases:
  "textSearchCallback t loc getDetails text nearby st =
     (if searchSucceeded text
      then processResults t loc getDetails (the (sr_results text)) st
      else if searchSucceeded nearby
      then processResults t loc getDetails (the (sr_results nearby)) st
      else st\<lparr>error := Some ''No hospitals found nearby'', loading := False\<rparr>)"
  by (simp add: textSearchCallback_def searchSucceeded_def split: option.split bool.split)

text \<open>C8: \<^verbatim>\<open>processResults\<close> on an empty candidate list stores the empty list, ends the
  loading state and leaves the error as it was; so does a text search that answers
  \<^verbatim>\<open>OK\<close> with an empty array. The search callbacks change the error only when neither the
  text search nor the nearby search delivers a result set (status \<^verbatim>\<open>OK\<close> and results
  present), and then they set it to \<open>No hospitals found nearby\<close>.\<close>

theorem empty_results_no_error:
  "processResults t loc getDetails [] st = st\<lparr>places := [], loading := False\<rparr>
   \<and> error (processResults t loc getDetails [] st) = error st
   \<and> (searchSucceeded text \<and> sr_results text = Some [] \<longrightarrow>
        textSearchCallback t loc getDetails text nearby st = st\<lparr>places := [], loading := False\<rparr>)
   \<and> (error (textSearchCallback t loc getDetails text nearby st) \<noteq> error st \<longrightarrow>
        \<not> searchSucceeded text \<and> \<not> searchSucceeded nearby)
   \<and> (\<not> searchSucceeded text \<and> \<not> searchSucceeded nearby \<longrightarrow>
        textSearchCallback t loc getDetails text nearby st =
          st\<lparr>error := Some ''No hospitals found nearby'', loading := False\<rparr>)"
proof -
  have e: "processResults t loc getDetails [] st = st\<lparr>places := [], loading := False\<rparr>"
    by (simp add: processResults_eq initialScored_empty finalPlaces_empty)
  have k: "error (processResults t loc getDetails rs st) = error st" for rs
    by (simp add: processResults_eq)
  have a: "searchSucceeded text \<and> sr_results text = Some [] \<longrightarrow>
        textSearchCallback t loc getDetails text nearby st = st\<lparr>places := [], loading := False\<rparr>"
    by (simp add: textSearchCallback_cases e)
  have b: "error (textSearchCallback t loc getDetails text nearby st) \<noteq> error st \<longrightarrow>
        \<not> searchSucceeded text \<and> \<not> searchSucceeded nearby"
    by (simp add: textSearchCallback_cases k)
  have c: "\<not> searchSucceeded text \<and> \<not> searchSucceeded nearby \<longrightarrow>
        textSearchCallback t loc getDetails text nearby st =
          st\<lparr>error := Some ''No hospitals found nearby'', loading := False\<rparr>"
    by (simp add: textSearchCallback_cases)
  from e k [of "[]"] a b c show ?thesis by blast
qed

theorem empty_results_no_error_witness:
  "searchSucceeded okEmpty \<and> sr_results okEmpty = Some []
   \<and> textSearchCallback (triageWith ''urgent'') delhi openLookup okEmpty zeroResults searchingState
       = searchingState\<lparr>places := [], loading := False\<rparr>
   \<and> error (textSearchCallback (triageWith ''urgent'') delhi openLookup okEmpty zeroResults
              searchingState) = None
   \<and> \<not> searchSucceeded zeroResults
   \<and> error (textSearchCallback (triageWith ''urgent'') delhi openLookup zeroResults zeroResults
              searchingState) = Some ''No hospitals found nearby''
   \<and> error (textSearchCallback (triageWith ''urgent'') delhi openLookup zeroResults zeroResults
              searchingState) \<noteq> error searchingState"
proof -
  have ok: "searchSucceeded okEmpty \<and> sr_results okEmpty = Some []"
    by (simp add: searchSucceeded_def okEmpty_def PlacesServiceStatus_OK_def)
  have z: "\<not> searchSucceeded zeroResults"
    by (simp add: searchSucceeded_def zeroResults_def PlacesServiceStatus_OK_def)
  have s: "error searchingState = None"
    by (simp add: searchingState_def)
  show ?thesis
    using empty_results_no_error [of "triageWith ''urgent''" delhi openLookup searchingState
        okEmpty zeroResults]
      empty_results_no_error [of "triageWith ''urgent''" delhi openLookup searchingState
        zeroResults zeroResults] ok z s
    by simp
qed

subsection \<open>What enrichment leaves unchanged\<close>

lemma set_map_filter: "set (List.map_filter f xs) = {y. \<exists>x \<in> set xs. f x = Some y}"
  by (induction xs) (auto simp: List.map_filter_def)

lemma initialScored_from_results:
  assumes "p \<in> set (initialScored t loc results)"
  shows "\<exists>raw \<in> set results. scorePlace loc raw = Some p"
proof -
  have "p \<in> set (sort_by compareScore (List.map_filter (scorePlace loc) results))"
    using assms unfolding initialScored_def by (rule in_set_takeD)
  then show ?thesis
    by (simp add: set_sort_by set_map_filter)
qed

text \<open>A scored place carries the identifier, name and coordinate of the search result it
  was made from, the distance from the user location to that coordinate, and the score of
  that distance.\<close>

lemma scorePlace_fields:
  assumes "scorePlace loc raw = Some p"
  shows "place_id p = place_id raw \<and> name p = name raw \<and> geometry p = geometry raw
         \<and> (\<exists>g l. geometry raw = Some g \<and> location g = Some l
                \<and> distance p = calculateDistance (lat loc) (lng loc) (lat l) (lng l))
         \<and> score p = calculateScore raw (distance p)"
  using assms by (auto simp: scorePlace_def Let_def split: option.splits)

lemma detailsCallback_frame:
  "detailsCallback p r =
     p\<lparr>formatted_phone_number := formatted_phone_number (detailsCallback p r),
       business_status := business_status (detailsCallback p r),
       isOpen := isOpen (detailsCallback p r)\<rparr>"
  by (simp add: detailsCallback_def split: option.split)

text \<open>C10: every element of the final list is the enrichment of a phase-1 candidate and
  differs from it at most in the phone number, the business status and the open status:
  identifier, name, coordinate, distance and score are those of phase 1 (computed by
  \<^verbatim>\<open>scorePlace\<close> from a search result), whatever the detail lookup returned.\<close>

theorem enrichment_frame:
  "\<forall>q \<in> set (places (processResults t loc getDetails results st)).
     \<exists>p \<in> set (initialScored t loc results).
       q = detailsCallback p (getDetails (place_id p))
       \<and> q = p\<lparr>formatted_phone_number := formatted_phone_number q,
               business_status := business_status q, isOpen := isOpen q\<rparr>
       \<and> place_id q = place_id p \<and> name q = name p \<and> geometry q = geometry p
       \<and> distance q = distance p \<and> score q = score p
       \<and> (\<exists>raw \<in> set results. scorePlace loc raw = Some p)"
proof
  fix q
  assume "q \<in> set (places (processResults t loc getDetails results st))"
  then have "q \<in> set (finalPlaces t (map (\<lambda>p. detailsCallback p (getDetails (place_id p)))
                          (initialScored t loc results)))"
    by (simp add: processResults_eq)
  then have "q \<in> set (map (\<lambda>p. detailsCallback p (getDetails (place_id p)))
                          (initialScored t loc results))"
    using set_finalPlaces by blast
  then obtain p where p: "p \<in> set (initialScored t loc results)"
    and q: "q = detailsCallback p (getDetails (place_id p))"
    by auto
  have fr: "q = p\<lparr>formatted_phone_number := formatted_phone_number q,
               business_status := business_status q, isOpen := isOpen q\<rparr>"
    unfolding q by (rule detailsCallback_frame)
  have "place_id q = place_id p \<and> name q = name p \<and> geometry q = geometry p
       \<and> distance q = distance p \<and> score q = score p"
    by (subst (1 2 3 4 5) fr) simp
  with p q fr initialScored_from_results [OF p]
  show "\<exists>p \<in> set (initialScored t loc results).
       q = detailsCallback p (getDetails (place_id p))
       \<and> q = p\<lparr>formatted_phone_number := formatted_phone_number q,
               business_status := business_status q, isOpen := isOpen q\<rparr>
       \<and> place_id q = place_id p \<and> name q = name p \<and> geometry q = geometry p
       \<and> distance q = distance p \<and> score q = score p
       \<and> (\<exists>raw \<in> set results. scorePlace loc raw = Some p)"
    by blast
qed

lemma scorePlace_raw:
  "scorePlace delhi rawPlace =
     Some (enrichedSample\<lparr>formatted_phone_number := None, business_status := None,
                           isOpen := IsNull\<rparr>)"
  by (simp add: scorePlace_def rawPlace_def enrichedSample_def calculateDistance_same
      calculateScore_def or_default_def)

theorem enrichment_frame_witness:
  "places (processResults (triageWith ''urgent'') delhi openLookup [rawPlace] searchingState)
     = [enrichedSample]
   \<and> initialScored (triageWith ''urgent'') delhi [rawPlace]
     = [enrichedSample\<lparr>formatted_phone_number := None, business_status := None,
                        isOpen := IsNull\<rparr>]
   \<and> score enrichedSample = 55 \<and> distance enrichedSample = 0"
proof -
  have i: "initialScored (triageWith ''urgent'') delhi [rawPlace]
     = [enrichedSample\<lparr>formatted_phone_number := None, business_status := None,
                        isOpen := IsNull\<rparr>]"
    by (simp add: initialScored_def List.map_filter_def scorePlace_raw preFilterCap_def)
  have d: "detailsCallback (enrichedSample\<lparr>formatted_phone_number := None,
              business_status := None, isOpen := IsNull\<rparr>) (openLookup ''h1'') = enrichedSample"
    by (simp add: detailsCallback_def openLookup_def detailsIsOpen_def or_null_def
        PlacesServiceStatus_OK_def enrichedSample_def)
  have pid: "place_id enrichedSample = ''h1''"
    by (simp add: enrichedSample_def)
  have f: "finalPlaces (triageWith ''urgent'') [enrichedSample] = [enrichedSample]"
    by (simp add: finalPlaces_def filteredPlaces_def sortedPlaces_def keepPlace_def
        resultCap_def urgencyOf_def triageWith_def)
  have pl: "places (processResults (triageWith ''urgent'') delhi openLookup [rawPlace]
                     searchingState) = [enrichedSample]"
    by (simp add: processResults_eq i d pid f)
  have sc: "score enrichedSample = 55 \<and> distance enrichedSample = 0"
    by (simp add: enrichedSample_def)
  from pl i sc show ?thesis
    using enrichment_frame [of "triageWith ''urgent''" delhi openLookup "[rawPlace]"
        searchingState]
    by blast
qed

end
